theory Spec2Isabelle
  imports Complex_Main
begin

section \<open>External collaborators\<close>

text \<open>
  The music-theory library (tonal) and the audio engine (Tone.js) are not part of the
  repository. \<open>Chord.get\<close> and \<open>Note.pitchClass\<close> are parameters of every function
  that calls them; \<open>Math.random\<close> is a sequence of draws, the \<open>k\<close>-th call returning
  \<open>rnd k\<close>, and every function that may call it takes the number of calls made so far
  and returns the number made afterwards. Arithmetic on loudness and onset offsets is over
  the reals: the rounding of JavaScript's doubles is not modelled.
\<close>

record chordInfo =
  tonic :: "string option"
  chord_notes :: "string list"

text \<open>
  \<open>chord_notes\<close> is the field \<open>notes\<close> of the object \<open>Chord.get\<close> returns, and
  \<open>notes_state\<close> below is the state variable \<open>notes\<close> of the component
  (\<open>notes\<close> is reserved in Isabelle).
\<close>

type_synonym resolver = "string \<Rightarrow> chordInfo"
type_synonym pitch_class = "string \<Rightarrow> string"
type_synonym random_source = "nat \<Rightarrow> real"

text \<open>
  One call \<open>synth.triggerAttackRelease(pitches, noteLength, onset?)\<close>. \<open>volume\<close> is
  \<open>synth.volume.value\<close> of the synth the call is made on, \<open>None\<close> when the code
  never assigns it. A call with a single note name carries a one-element list. \<open>onset\<close>
  is the number of seconds in the third argument \<open>`+${i * 0.3}`\<close>, \<open>None\<close> when the
  argument is omitted.
\<close>

record 'p trigger =
  volume :: "real option"
  pitches :: "'p list"
  noteLength :: string
  onset :: "real option"

section \<open>JavaScript values\<close>

text \<open>Truthiness of a value of type \<open>string | null\<close>: \<open>null\<close> and \<open>""\<close> are falsy.\<close>

definition truthy :: "string option \<Rightarrow> bool" where
  "truthy v = (case v of None \<Rightarrow> False | Some x \<Rightarrow> x \<noteq> [])"

text \<open>The string JavaScript appends for a non-negative integer: its decimal digits.\<close>

function string_of_nat :: "nat \<Rightarrow> string" where
  "string_of_nat n =
     (if n < 10 then [''0123456789'' ! n]
      else string_of_nat (n div 10) @ [''0123456789'' ! (n mod 10)])"
  by pat_completeness auto
termination
  by (relation "measure id") auto

declare string_of_nat.simps [simp del]

section \<open>ChordSearch: state\<close>

datatype play_style = Chord | Arpeggio
datatype duration_class = Short | Medium | Long
datatype velocity_class = Low | MediumVel | High

record session =
  query :: string
  selectedChord :: "string option"
  notes_state :: "string list"
  bassNote :: "string option"
  isMuted :: bool
  playStyle :: play_style
  duration :: duration_class
  velocity :: velocity_class
  selectedMelody :: "string list"
  harmonicsMode :: bool
  loop :: bool
  eightBarLoop :: bool
  progression :: "string list"

text \<open>The initial values given to \<open>useState\<close>.\<close>

definition initial :: session where
  "initial = \<lparr> query = [], selectedChord = None, notes_state = [], bassNote = None,
     isMuted = False, playStyle = Chord, duration = Medium, velocity = MediumVel,
     selectedMelody = [], harmonicsMode = False, loop = False, eightBarLoop = False,
     progression = [] \<rparr>"

fun velocityMap :: "velocity_class \<Rightarrow> real" where
  "velocityMap Low = -24"
| "velocityMap MediumVel = -12"
| "velocityMap High = 0"

fun timeMap :: "duration_class \<Rightarrow> string" where
  "timeMap Short = ''4n''"
| "timeMap Medium = ''2n''"
| "timeMap Long = ''1n''"

definition baseOctave :: nat where
  "baseOctave = 4"

section \<open>ChordSearch: single-chord playback\<close>

definition getHumanizedVelocity ::
  "velocity_class \<Rightarrow> random_source \<Rightarrow> nat \<Rightarrow> real \<times> nat" where
  "getHumanizedVelocity vel rnd k =
     (let base = velocityMap vel;
          offset = (rnd k - 0.5) * 4
      in (base + offset, Suc k))"

text \<open>The list \<open>allNotes\<close> of \<open>playChord\<close>: bass if truthy, then the chord, then the melody.\<close>

definition allNotes :: "string option \<Rightarrow> string list \<Rightarrow> string list \<Rightarrow> string list" where
  "allNotes bass customNotes melody =
     (case bass of None \<Rightarrow> [] | Some b \<Rightarrow> if b = [] then [] else [b]) @ customNotes @ melody"

text \<open>
  \<open>playChord\<close> reads the state of the render that created it. The promise of
  \<open>Tone.start()\<close> is taken to resolve; the calls of its continuation are the result.
\<close>

definition playChord ::
  "random_source \<Rightarrow> nat \<Rightarrow> session \<Rightarrow> string list \<Rightarrow> string trigger list \<times> nat" where
  "playChord rnd k s customNotes =
     (if isMuted s \<or> customNotes = [] then ([], k)
      else
        let all = allNotes (bassNote s) customNotes (selectedMelody s);
            (vol, k') = getHumanizedVelocity (velocity s) rnd k
        in (case playStyle s of
              Chord \<Rightarrow>
                [\<lparr> volume = Some vol, pitches = all, noteLength = timeMap (duration s),
                    onset = None \<rparr>]
            | Arpeggio \<Rightarrow>
                map (\<lambda>(i, note).
                      \<lparr> volume = Some vol, pitches = [note], noteLength = timeMap (duration s),
                        onset = Some (real i * 0.3) \<rparr>)
                  (enumerate 0 all),
            k'))"

text \<open>The tick of the loop interval calls \<open>playChord()\<close> with its default argument.\<close>

definition loopTick :: "random_source \<Rightarrow> nat \<Rightarrow> session \<Rightarrow> string trigger list \<times> nat" where
  "loopTick rnd k s = playChord rnd k s (notes_state s)"

definition playMelodyPreview :: "session \<Rightarrow> string trigger list" where
  "playMelodyPreview s =
     (if selectedMelody s = [] \<or> isMuted s then []
      else map (\<lambda>(i, note).
                 \<lparr> volume = None, pitches = [note], noteLength = ''8n'',
                   onset = Some (real i * 0.3) \<rparr>)
             (enumerate 0 (selectedMelody s)))"

section \<open>ChordSearch: selecting a chord\<close>

text \<open>
  The setters take effect with the next render, so the call \<open>playChord(fullNotes)\<close> at
  the end of the handler still reads the mute flag, bass and melody of the state \<open>s\<close>
  the handler started from.
\<close>

definition handleSelect ::
  "resolver \<Rightarrow> pitch_class \<Rightarrow> random_source \<Rightarrow> nat \<Rightarrow> session \<Rightarrow> string \<Rightarrow>
     session \<times> string trigger list \<times> nat" where
  "handleSelect Chord_get pitchClass rnd k s chordName =
     (let info = Chord_get chordName;
          fullNotes = map (\<lambda>n. pitchClass n @ string_of_nat baseOctave) (chord_notes info);
          fullNotes' =
            (if harmonicsMode s
             then map (\<lambda>(i, note). pitchClass note @ string_of_nat (4 + i div 2))
                    (enumerate 0 fullNotes)
             else fullNotes);
          root = tonic info;
          (calls, k') = playChord rnd k s fullNotes'
      in (s\<lparr> selectedChord := Some chordName,
             bassNote := (case root of None \<Rightarrow> None
                          | Some r \<Rightarrow> if r = [] then None else Some (r @ ''2'')),
             notes_state := fullNotes',
             selectedMelody := [] \<rparr>,
          calls, k'))"

text \<open>The melody buttons toggle the pitch \<open>n + "5"\<close>.\<close>

definition toggleMelody :: "session \<Rightarrow> string \<Rightarrow> session" where
  "toggleMelody s n =
     s\<lparr> selectedMelody :=
          (if n @ ''5'' \<in> set (selectedMelody s)
           then filter (\<lambda>note. note \<noteq> n @ ''5'') (selectedMelody s)
           else selectedMelody s @ [n @ ''5'']) \<rparr>"

section \<open>ChordSearch: the progression\<close>

definition addToProgression :: "session \<Rightarrow> session" where
  "addToProgression s =
     (case selectedChord s of
        None \<Rightarrow> s
      | Some c \<Rightarrow> if c = [] then s else s\<lparr> progression := progression s @ [c] \<rparr>)"

text \<open>The handler passed to \<open>ChordProgressionSection\<close> as \<open>onSelect\<close>.\<close>

definition onSelect :: "session \<Rightarrow> string list \<Rightarrow> session" where
  "onSelect s chords =
     s\<lparr> progression := chords, selectedChord := None, notes_state := [], bassNote := None,
        selectedMelody := [] \<rparr>"

definition clearProgression :: "session \<Rightarrow> session" where
  "clearProgression s = s\<lparr> progression := [] \<rparr>"

text \<open>
  \<open>playProgression\<close> creates one synth, assigns its volume once, and starts the chain of
  timer callbacks \<open>playNext\<close>. The chain is simulated on a logical clock: \<open>t\<close> is the
  number of milliseconds since the promise of \<open>Tone.start()\<close> resolved, and
  \<open>setTimeout(playNext, 1500)\<close> runs \<open>playNext\<close> at \<open>t + 1500\<close>. The first argument
  bounds the number of callbacks that are run; \<open>Armed\<close> says that a timer was still
  pending when the bound was reached, \<open>Stopped\<close> that the chain returned without
  arming one. The variable \<open>i\<close> of the closure is the argument \<open>i\<close>; \<open>progression\<close>,
  \<open>eightBarLoop\<close> and \<open>duration\<close> are those of the render that created the handler.
\<close>

datatype walk_status = Stopped | Armed

definition chordCall :: "resolver \<Rightarrow> pitch_class \<Rightarrow> session \<Rightarrow> real option \<Rightarrow> string \<Rightarrow> string trigger" where
  "chordCall Chord_get pitchClass s vol chordName =
     (let info = Chord_get chordName;
          fullNotes = map (\<lambda>n. pitchClass n @ ''4'') (chord_notes info)
      in \<lparr> volume = vol, pitches = fullNotes, noteLength = timeMap (duration s), onset = None \<rparr>)"

fun playNext ::
  "resolver \<Rightarrow> pitch_class \<Rightarrow> session \<Rightarrow> real option \<Rightarrow> nat \<Rightarrow> nat \<Rightarrow> nat \<Rightarrow>
     (nat \<times> string trigger) list \<times> walk_status" where
  "playNext Chord_get pitchClass s vol 0 i t = ([], Armed)"
| "playNext Chord_get pitchClass s vol (Suc fuel) i t =
     (if i \<ge> length (progression s) then
        (if eightBarLoop s then playNext Chord_get pitchClass s vol fuel 0 (t + 1500)
         else ([], Stopped))
      else
        (let (calls, st) = playNext Chord_get pitchClass s vol fuel (i + 1) (t + 1500)
         in ((t, chordCall Chord_get pitchClass s vol (progression s ! i)) # calls, st)))"

definition playProgression ::
  "resolver \<Rightarrow> pitch_class \<Rightarrow> random_source \<Rightarrow> nat \<Rightarrow> session \<Rightarrow> nat \<Rightarrow>
     ((nat \<times> string trigger) list \<times> walk_status) \<times> nat" where
  "playProgression Chord_get pitchClass rnd k s fuel =
     (if progression s = [] then (([], Stopped), k)
      else
        let (vol, k') = getHumanizedVelocity (velocity s) rnd k
        in (playNext Chord_get pitchClass s (Some vol) fuel 0 0, k'))"

section \<open>Piano\<close>

record pianoProps =
  p_notes :: "string list"
  p_bassNote :: "string option"
  p_melodyNotes :: "string list"
  p_muted :: bool
  p_playStyle :: play_style
  p_duration :: duration_class

text \<open>The properties \<open>ChordSearch\<close> renders the piano with.\<close>

definition pianoOf :: "session \<Rightarrow> pianoProps" where
  "pianoOf s =
     \<lparr> p_notes = notes_state s
                 @ (case bassNote s of None \<Rightarrow> [] | Some b \<Rightarrow> if b = [] then [] else [b])
                 @ selectedMelody s,
       p_bassNote = bassNote s,
       p_melodyNotes = selectedMelody s,
       p_muted = isMuted s,
       p_playStyle = playStyle s,
       p_duration = duration s \<rparr>"

definition combined :: "pianoProps \<Rightarrow> string list" where
  "combined p =
     (case p_bassNote p of None \<Rightarrow> [] | Some b \<Rightarrow> if b = [] then [] else [b])
       @ p_notes p @ p_melodyNotes p"

text \<open>
  One run of the playback effect. \<open>synth\<close> says whether \<open>synthRef.current\<close> holds a
  synth when the promise of \<open>Tone.start()\<close> resolves. The volume of that synth is never
  assigned.
\<close>

definition pianoEffect :: "bool \<Rightarrow> pianoProps \<Rightarrow> string trigger list" where
  "pianoEffect synth p =
     (if p_muted p \<or> combined p = [] then []
      else if \<not> synth then []
      else (case p_playStyle p of
              Chord \<Rightarrow>
                [\<lparr> volume = None, pitches = combined p, noteLength = timeMap (p_duration p),
                    onset = None \<rparr>]
            | Arpeggio \<Rightarrow>
                map (\<lambda>(i, note).
                      \<lparr> volume = None, pitches = [note], noteLength = timeMap (p_duration p),
                        onset = Some (real i * 0.25) \<rparr>)
                  (enumerate 0 (combined p))))"

definition handleKeyClick :: "bool \<Rightarrow> pianoProps \<Rightarrow> string \<Rightarrow> string trigger list" where
  "handleKeyClick synth p note =
     (if p_muted p then []
      else if \<not> synth then []
      else [\<lparr> volume = None, pitches = [note], noteLength = ''8n'', onset = None \<rparr>])"

text \<open>
  The other copy of the component has no key handler, and its effect returns early when
  both the notes and the melody are empty, whatever the bass.
\<close>

definition pianoEffect_alt :: "bool \<Rightarrow> pianoProps \<Rightarrow> string trigger list" where
  "pianoEffect_alt synth p =
     (if (p_notes p = [] \<and> p_melodyNotes p = []) \<or> p_muted p then []
      else if \<not> synth then []
      else (case p_playStyle p of
              Chord \<Rightarrow>
                [\<lparr> volume = None, pitches = combined p, noteLength = timeMap (p_duration p),
                    onset = None \<rparr>]
            | Arpeggio \<Rightarrow>
                map (\<lambda>(i, note).
                      \<lparr> volume = None, pitches = [note], noteLength = timeMap (p_duration p),
                        onset = Some (real i * 0.25) \<rparr>)
                  (enumerate 0 (combined p))))"

section \<open>ChordSearch: the variant with inversion and bass suggestions\<close>

text \<open>
  The second version of the component adds the flags \<open>useRootAsBass\<close> and \<open>inversion\<close>,
  and a menu of progression templates. Its names carry the suffix \<open>2\<close>. With
  \<open>inversion\<close> set, \<open>[...fullNotes.slice(1), fullNotes[0]]\<close> reads index 0 of the array:
  on an empty array that is \<open>undefined\<close>, so the elements of the note list are optional
  strings here, \<open>None\<close> being \<open>undefined\<close>, and \<open>Note.pitchClass\<close> is a parameter on
  such values.
\<close>

type_synonym pitch_class2 = "string option \<Rightarrow> string"

record session2 =
  query2 :: string
  selectedChord2 :: "string option"
  notes2 :: "string option list"
  bassNote2 :: "string option"
  useRootAsBass2 :: bool
  isMuted2 :: bool
  playStyle2 :: play_style
  duration2 :: duration_class
  velocity2 :: velocity_class
  selectedMelody2 :: "string list"
  inversion2 :: bool
  harmonicsMode2 :: bool
  loop2 :: bool
  eightBarLoop2 :: bool
  progression2 :: "string list"

definition initial2 :: session2 where
  "initial2 = \<lparr> query2 = [], selectedChord2 = None, notes2 = [], bassNote2 = None,
     useRootAsBass2 = True, isMuted2 = False, playStyle2 = Chord, duration2 = Medium,
     velocity2 = MediumVel, selectedMelody2 = [], inversion2 = False, harmonicsMode2 = False,
     loop2 = False, eightBarLoop2 = False, progression2 = [] \<rparr>"

definition en_dash :: string where
  "en_dash = [CHR 0xE2, CHR 0x80, CHR 0x93]"

text \<open>The table \<open>progressionTemplates\<close>; the labels are written in UTF-8.\<close>

definition progressionTemplates :: "(string \<times> string list) list" where
  "progressionTemplates =
     [(''I'' @ en_dash @ ''V'' @ en_dash @ ''vi'' @ en_dash @ ''IV'',
         [''Cmaj'', ''Gmaj'', ''Am'', ''Fmaj'']),
      (''ii'' @ en_dash @ ''V'' @ en_dash @ ''I'', [''Dm7'', ''G7'', ''Cmaj7'']),
      (''12-Bar Blues'', [''C7'', ''F7'', ''C7'', ''G7''])]"

definition playChord2 ::
  "random_source \<Rightarrow> nat \<Rightarrow> session2 \<Rightarrow> string option list \<Rightarrow>
     string option trigger list \<times> nat" where
  "playChord2 rnd k s customNotes =
     (if isMuted2 s \<or> customNotes = [] then ([], k)
      else
        let all = (case bassNote2 s of None \<Rightarrow> [] | Some b \<Rightarrow> if b = [] then [] else [Some b])
                    @ customNotes @ map Some (selectedMelody2 s);
            (vol, k') = getHumanizedVelocity (velocity2 s) rnd k
        in (case playStyle2 s of
              Chord \<Rightarrow>
                [\<lparr> volume = Some vol, pitches = all, noteLength = timeMap (duration2 s),
                    onset = None \<rparr>]
            | Arpeggio \<Rightarrow>
                map (\<lambda>(i, note).
                      \<lparr> volume = Some vol, pitches = [note], noteLength = timeMap (duration2 s),
                        onset = Some (real i * 0.3) \<rparr>)
                  (enumerate 0 all),
            k'))"

definition handleSelect2 ::
  "resolver \<Rightarrow> pitch_class2 \<Rightarrow> random_source \<Rightarrow> nat \<Rightarrow> session2 \<Rightarrow> string \<Rightarrow>
     session2 \<times> string option trigger list \<times> nat" where
  "handleSelect2 Chord_get pitchClass rnd k s chordName =
     (let info = Chord_get chordName;
          fullNotes =
            map (\<lambda>n. Some (pitchClass (Some n) @ string_of_nat baseOctave)) (chord_notes info);
          fullNotes' =
            (if inversion2 s
             then drop 1 fullNotes @ [case fullNotes of [] \<Rightarrow> None | x # _ \<Rightarrow> x]
             else fullNotes);
          fullNotes'' =
            (if harmonicsMode2 s
             then map (\<lambda>(i, note). Some (pitchClass note @ string_of_nat (4 + i div 2)))
                    (enumerate 0 fullNotes')
             else fullNotes');
          root = tonic info;
          (calls, k') = playChord2 rnd k s fullNotes''
      in (s\<lparr> selectedChord2 := Some chordName,
             bassNote2 := (if useRootAsBass2 s
                           then (case root of None \<Rightarrow> None
                                 | Some r \<Rightarrow> if r = [] then None else Some (r @ ''2''))
                           else None),
             notes2 := fullNotes'',
             selectedMelody2 := [] \<rparr>,
          calls, k'))"

definition handleBassClick2 :: "session2 \<Rightarrow> string \<Rightarrow> session2" where
  "handleBassClick2 s note = s\<lparr> bassNote2 := Some note \<rparr>"

definition toggleMelodyNote2 :: "session2 \<Rightarrow> string \<Rightarrow> session2" where
  "toggleMelodyNote2 s note =
     s\<lparr> selectedMelody2 :=
          (if note \<in> set (selectedMelody2 s)
           then filter (\<lambda>n. n \<noteq> note) (selectedMelody2 s)
           else selectedMelody2 s @ [note]) \<rparr>"

definition clearMelody2 :: "session2 \<Rightarrow> session2" where
  "clearMelody2 s = s\<lparr> selectedMelody2 := [] \<rparr>"

definition addToProgression2 :: "session2 \<Rightarrow> session2" where
  "addToProgression2 s =
     (case selectedChord2 s of
        None \<Rightarrow> s
      | Some c \<Rightarrow> if c = [] then s else s\<lparr> progression2 := progression2 s @ [c] \<rparr>)"

text \<open>
  The \<open>onChange\<close> handler of the template menu; \<open>selected\<close> is the value of the chosen
  option, one of the labels of the table.
\<close>

definition templateChange2 :: "session2 \<Rightarrow> string \<Rightarrow> session2" where
  "templateChange2 s selected =
     (if selected = [] then s
      else (case map_of progressionTemplates selected of
              None \<Rightarrow> s
            | Some chords \<Rightarrow>
                s\<lparr> progression2 := chords, selectedChord2 := None, notes2 := [],
                   bassNote2 := None, selectedMelody2 := [] \<rparr>))"

section \<open>Chord progression section\<close>

text \<open>
  The chord lists of the table \<open>templates\<close>; a click on a card calls \<open>onSelect\<close> with the
  list of that card.
\<close>

definition templates :: "string list list" where
  "templates =
     [[''Dm7'', ''G7'', ''Cmaj7'', ''Fmaj7''],
      [''Am7'', ''Em7'', ''Fmaj7'', ''G6''],
      [''Cmaj7'', ''Am'', ''Fmaj7'', ''G''],
      [''Cm7'', ''Abmaj7'', ''Bb7'', ''G7'']]"

section \<open>A stand-in for the music-theory library\<close>

text \<open>
  A small resolver and a pitch-class function with the behaviour of the library on the
  chords used below, to run the model on concrete input.
\<close>

definition demo_Chord_get :: resolver where
  "demo_Chord_get c =
     (if c = ''Cmaj7'' then \<lparr> tonic = Some ''C'', chord_notes = [''C'', ''E'', ''G'', ''B''] \<rparr>
      else if c = ''G7'' then \<lparr> tonic = Some ''G'', chord_notes = [''G'', ''B'', ''D'', ''F''] \<rparr>
      else if c = ''Fmaj7'' then \<lparr> tonic = Some ''F'', chord_notes = [''F'', ''A'', ''C'', ''E''] \<rparr>
      else \<lparr> tonic = None, chord_notes = [] \<rparr>)"

definition demo_pitchClass :: pitch_class where
  "demo_pitchClass n = takeWhile (\<lambda>c. c \<notin> set ''0123456789'') n"

definition demo_pitchClass2 :: pitch_class2 where
  "demo_pitchClass2 v = (case v of None \<Rightarrow> [] | Some n \<Rightarrow> demo_pitchClass n)"

definition demo_rnd :: random_source where
  "demo_rnd k = (if k = 0 then 0 else 3 / 4)"

section \<open>Auxiliary facts\<close>

lemma string_of_nat_4: "string_of_nat 4 = ''4''"
  by (simp add: string_of_nat.simps)

lemma map_enumerate_nth:
  "map (\<lambda>(i, x). f i x) (enumerate 0 xs) = map (\<lambda>i. f i (xs ! i)) [0..<length xs]"
  by (rule nth_equalityI) (simp_all add: nth_enumerate_eq)

text \<open>
  Without the eight-bar loop the chain started at index \<open>i\<close> and time \<open>t\<close> triggers the
  chords \<open>i, \<dots>, n - 1\<close> and returns at the callback that finds \<open>i = n\<close>.
\<close>

lemma playNext_stop:
  "\<not> eightBarLoop s \<Longrightarrow> d = length (progression s) - i \<Longrightarrow> i \<le> length (progression s) \<Longrightarrow>
   playNext C P s v (Suc (d + extra)) i t =
     (map (\<lambda>j. (t + 1500 * (j - i), chordCall C P s v (progression s ! j)))
        [i..<length (progression s)], Stopped)"
proof (induction d arbitrary: i t)
  case 0
  then show ?case by simp
next
  case (Suc d)
  then have lt: "i < length (progression s)" and d: "d = length (progression s) - Suc i"
    by simp_all
  have "playNext C P s v (Suc (d + extra)) (Suc i) (t + 1500) =
     (map (\<lambda>j. (t + 1500 + 1500 * (j - Suc i), chordCall C P s v (progression s ! j)))
        [Suc i..<length (progression s)], Stopped)"
    using Suc.IH [of "Suc i" "t + 1500"] Suc.prems(1) d lt by simp
  moreover have "map (\<lambda>j. (t + 1500 + 1500 * (j - Suc i), chordCall C P s v (progression s ! j)))
        [Suc i..<length (progression s)] =
      map (\<lambda>j. (t + 1500 * (j - i), chordCall C P s v (progression s ! j)))
        [Suc i..<length (progression s)]"
    by (rule map_cong) (auto simp: algebra_simps Suc_diff_Suc)
  ultimately show ?case
    using lt by (simp add: upt_conv_Cons)
qed

text \<open>
  With the eight-bar loop the callbacks run every 1500 ms for ever. The callback number
  \<open>j\<close> (at time \<open>1500 * j\<close>) sees the index \<open>j mod (n + 1)\<close>: it triggers that chord when
  the index is below \<open>n\<close>, and resets the index when it is \<open>n\<close>.
\<close>

lemma playNext_loop:
  "eightBarLoop s \<Longrightarrow> progression s \<noteq> [] \<Longrightarrow>
   playNext C P s v fuel (j0 mod Suc (length (progression s))) (1500 * j0) =
     (map (\<lambda>j. (1500 * j, chordCall C P s v (progression s ! (j mod Suc (length (progression s))))))
        (filter (\<lambda>j. j mod Suc (length (progression s)) < length (progression s)) [j0..<j0 + fuel]),
      Armed)"
proof (induction fuel arbitrary: j0)
  case 0
  then show ?case by simp
next
  case (Suc fuel)
  let ?n = "length (progression s)"
  have t: "1500 * Suc j0 = 1500 * j0 + 1500" by simp
  note IH = Suc.IH [of "Suc j0", OF Suc.prems, unfolded t]
  have le: "j0 mod Suc ?n \<le> ?n"
    using mod_less_divisor [of "Suc ?n" j0] by simp
  show ?case
  proof (cases "j0 mod Suc ?n < ?n")
    case True
    then have "Suc j0 mod Suc ?n = j0 mod Suc ?n + 1"
      by (simp add: mod_Suc)
    with IH True show ?thesis
      by (simp add: upt_conv_Cons del: upt_Suc mult_Suc_right)
  next
    case False
    with le have eq: "j0 mod Suc ?n = ?n" by linarith
    then have "Suc j0 mod Suc ?n = 0"
      by (simp add: mod_Suc)
    with IH eq Suc.prems show ?thesis
      by (simp add: upt_conv_Cons del: upt_Suc mult_Suc_right)
  qed
qed

lemma restart_filter:
  "0 < n \<Longrightarrow> filter (\<lambda>j. j mod Suc n < n) [0..<Suc (Suc n)] = [0..<n] @ [Suc n]"
proof -
  assume n: "0 < n"
  have "filter (\<lambda>j. j mod Suc n < n) [0..<n] = [0..<n]"
    by (rule filter_True) simp
  with n show ?thesis by simp
qed

lemma playNext_volume:
  "map (volume \<circ> snd) (fst (playNext C P s v fuel i t)) =
     replicate (length (fst (playNext C P s v fuel i t))) v"
  by (induction C P s v fuel i t rule: playNext.induct)
    (simp_all add: split_beta chordCall_def)

text \<open>Every playback path that tests the mute flag issues nothing when it is set.\<close>

lemma muted_guarded_paths:
  assumes "isMuted s"
  shows "playChord rnd k s customNotes = ([], k)"
    and "loopTick rnd k s = ([], k)"
    and "playMelodyPreview s = []"
    and "snd (handleSelect C P rnd k s c) = ([], k)"
    and "pianoEffect synth (pianoOf s) = []"
    and "pianoEffect_alt synth (pianoOf s) = []"
    and "handleKeyClick synth (pianoOf s) note = []"
  using assms
  by (simp_all add: playChord_def loopTick_def playMelodyPreview_def handleSelect_def
      pianoEffect_def pianoEffect_alt_def handleKeyClick_def pianoOf_def Let_def)

section \<open>Progression playback\<close>

text \<open>
  C2. For a non-empty progression of length \<open>n\<close>, \<open>playProgression\<close> triggers the
  chord at each index in order, one call carrying the whole chord, at the times
  \<open>0, 1500, \<dots>, 1500 * (n - 1)\<close>. The callback at \<open>1500 * n\<close> finds the index at
  \<open>n\<close>. With the eight-bar loop disabled the chain stops there: any number of callbacks
  above \<open>n\<close> gives exactly these \<open>n\<close> calls. With the loop enabled the chain never
  stops: that callback resets the index and arms one more timer of 1500 ms, so the walk
  restarts with the chord of index 0 at \<open>1500 * (n + 1)\<close>, 3000 ms after the last chord,
  and in general callback \<open>j\<close> triggers the chord \<open>j mod (n + 1)\<close> unless that index is
  \<open>n\<close>.
\<close>

theorem progression_walk:
  assumes "progression s \<noteq> []"
  shows "(\<not> eightBarLoop s \<longrightarrow>
            fst (playProgression C P rnd k s (Suc (length (progression s) + extra))) =
              (map (\<lambda>i. (1500 * i,
                     chordCall C P s (Some (fst (getHumanizedVelocity (velocity s) rnd k)))
                       (progression s ! i)))
                 [0..<length (progression s)], Stopped))
       \<and> (eightBarLoop s \<longrightarrow>
            fst (playProgression C P rnd k s fuel) =
              (map (\<lambda>j. (1500 * j,
                     chordCall C P s (Some (fst (getHumanizedVelocity (velocity s) rnd k)))
                       (progression s ! (j mod Suc (length (progression s))))))
                 (filter (\<lambda>j. j mod Suc (length (progression s)) < length (progression s))
                    [0..<fuel]), Armed))
       \<and> (eightBarLoop s \<longrightarrow>
            fst (playProgression C P rnd k s (Suc (Suc (length (progression s))))) =
              (map (\<lambda>i. (1500 * i,
                     chordCall C P s (Some (fst (getHumanizedVelocity (velocity s) rnd k)))
                       (progression s ! i)))
                 [0..<length (progression s)]
               @ [(1500 * Suc (length (progression s)),
                   chordCall C P s (Some (fst (getHumanizedVelocity (velocity s) rnd k)))
                     (progression s ! 0))], Armed))"
proof -
  let ?n = "length (progression s)"
  let ?call = "chordCall C P s (Some (fst (getHumanizedVelocity (velocity s) rnd k)))"
  have run: "fst (playProgression C P rnd k s f) =
      playNext C P s (Some (fst (getHumanizedVelocity (velocity s) rnd k))) f 0 0" for f
    using assms by (simp add: playProgression_def split_beta)
  have stop: "fst (playProgression C P rnd k s (Suc (?n + extra))) =
      (map (\<lambda>i. (1500 * i, ?call (progression s ! i))) [0..<?n], Stopped)"
    if "\<not> eightBarLoop s"
    using that playNext_stop [of s ?n 0 C P _ extra 0] by (simp add: run)
  have loop: "fst (playProgression C P rnd k s f) =
      (map (\<lambda>j. (1500 * j, ?call (progression s ! (j mod Suc ?n))))
         (filter (\<lambda>j. j mod Suc ?n < ?n) [0..<f]), Armed)"
    if "eightBarLoop s" for f
    using that assms playNext_loop [of s C P _ f 0] by (simp add: run)
  have restart: "fst (playProgression C P rnd k s (Suc (Suc ?n))) =
      (map (\<lambda>i. (1500 * i, ?call (progression s ! i))) [0..<?n]
         @ [(1500 * Suc ?n, ?call (progression s ! 0))], Armed)"
    if "eightBarLoop s"
  proof -
    have "map (\<lambda>j. (1500 * j, ?call (progression s ! (j mod Suc ?n)))) [0..<?n] =
          map (\<lambda>i. (1500 * i, ?call (progression s ! i))) [0..<?n]"
      by (rule map_cong) simp_all
    moreover have "0 < ?n"
      using assms by simp
    then have "filter (\<lambda>j. j mod Suc ?n < ?n) [0..<Suc (Suc ?n)] = [0..<?n] @ [Suc ?n]"
      by (rule restart_filter)
    ultimately show ?thesis
      by (simp only: loop [OF that] map_append list.map mod_self)
  qed
  from stop loop restart show ?thesis by blast
qed

text \<open>
  The theorem on the progression \<open>Cmaj7, G7, Fmaj7\<close>: three calls and a stop without
  the loop; with the loop, the fourth call is at 6000 ms and repeats the first chord.
\<close>

theorem progression_walk_witness:
  "progression (initial\<lparr> progression := [''Cmaj7'', ''G7'', ''Fmaj7''] \<rparr>) \<noteq> []
   \<and> \<not> eightBarLoop (initial\<lparr> progression := [''Cmaj7'', ''G7'', ''Fmaj7''] \<rparr>)
   \<and> fst (playProgression demo_Chord_get demo_pitchClass demo_rnd 0
        (initial\<lparr> progression := [''Cmaj7'', ''G7'', ''Fmaj7''] \<rparr>) 4) =
       ([(0, \<lparr> volume = Some (- 14), pitches = [''C4'', ''E4'', ''G4'', ''B4''],
              noteLength = ''2n'', onset = None \<rparr>),
         (1500, \<lparr> volume = Some (- 14), pitches = [''G4'', ''B4'', ''D4'', ''F4''],
              noteLength = ''2n'', onset = None \<rparr>),
         (3000, \<lparr> volume = Some (- 14), pitches = [''F4'', ''A4'', ''C4'', ''E4''],
              noteLength = ''2n'', onset = None \<rparr>)], Stopped)
   \<and> eightBarLoop (initial\<lparr> progression := [''Cmaj7'', ''G7'', ''Fmaj7''], eightBarLoop := True \<rparr>)
   \<and> fst (playProgression demo_Chord_get demo_pitchClass demo_rnd 0
        (initial\<lparr> progression := [''Cmaj7'', ''G7'', ''Fmaj7''], eightBarLoop := True \<rparr>) 5) =
       ([(0, \<lparr> volume = Some (- 14), pitches = [''C4'', ''E4'', ''G4'', ''B4''],
              noteLength = ''2n'', onset = None \<rparr>),
         (1500, \<lparr> volume = Some (- 14), pitches = [''G4'', ''B4'', ''D4'', ''F4''],
              noteLength = ''2n'', onset = None \<rparr>),
         (3000, \<lparr> volume = Some (- 14), pitches = [''F4'', ''A4'', ''C4'', ''E4''],
              noteLength = ''2n'', onset = None \<rparr>),
         (6000, \<lparr> volume = Some (- 14), pitches = [''C4'', ''E4'', ''G4'', ''B4''],
              noteLength = ''2n'', onset = None \<rparr>)], Armed)"
proof -
  have four: "Suc (length (progression (initial\<lparr> progression := [''Cmaj7'', ''G7'', ''Fmaj7''] \<rparr>)) + 0)
      = 4"
    by simp
  have five: "Suc (Suc (length (progression
      (initial\<lparr> progression := [''Cmaj7'', ''G7'', ''Fmaj7''], eightBarLoop := True \<rparr>)))) = 5"
    by simp
  show ?thesis
    using progression_walk [where s = "initial\<lparr> progression := [''Cmaj7'', ''G7'', ''Fmaj7''] \<rparr>"
        and C = demo_Chord_get and P = demo_pitchClass and rnd = demo_rnd and k = 0 and extra = 0
        and fuel = 0, unfolded four]
      progression_walk [where s = "initial\<lparr> progression := [''Cmaj7'', ''G7'', ''Fmaj7''],
          eightBarLoop := True \<rparr>"
        and C = demo_Chord_get and P = demo_pitchClass and rnd = demo_rnd and k = 0 and extra = 0
        and fuel = 0, unfolded five]
    by (simp add: initial_def chordCall_def getHumanizedVelocity_def demo_Chord_get_def
        demo_pitchClass_def demo_rnd_def)
qed

text \<open>
  The restart does not come one pause of 1500 ms after the last chord: with three chords
  and the loop enabled, the first five callbacks trigger at 0, 1500, 3000 and 6000 ms, and
  nothing is triggered at 4500 ms.
\<close>

theorem progression_restart_counterexample:
  "map fst (fst (fst (playProgression demo_Chord_get demo_pitchClass demo_rnd 0
       (initial\<lparr> progression := [''Cmaj7'', ''G7'', ''Fmaj7''], eightBarLoop := True \<rparr>) 5))) =
     [0, 1500, 3000, 6000]"
proof -
  have five: "(5::nat) = Suc (Suc (Suc (Suc (Suc 0))))"
    by simp
  show ?thesis
    unfolding five
    by (simp add: playProgression_def getHumanizedVelocity_def initial_def split_beta)
qed

section \<open>Muting\<close>

text \<open>
  C1. With the mute flag set, no playback operation may issue a call to the audio engine.
  \<open>playChord\<close> (also through \<open>handleSelect\<close> and the loop interval),
  \<open>playMelodyPreview\<close>, the piano effect and the key handler test the flag, see
  \<open>muted_guarded_paths\<close>. \<open>playProgression\<close> tests only that the progression is
  non-empty: on a muted session with the progression \<open>Cmaj7, G7, Fmaj7\<close> it issues the
  three chord calls all the same.
\<close>

theorem muted_progression_still_triggers:
  "fst (playProgression demo_Chord_get demo_pitchClass demo_rnd 0
          (initial\<lparr> isMuted := True, progression := [''Cmaj7'', ''G7'', ''Fmaj7''] \<rparr>) 4) =
     ([(0, \<lparr> volume = Some (- 14), pitches = [''C4'', ''E4'', ''G4'', ''B4''],
            noteLength = ''2n'', onset = None \<rparr>),
       (1500, \<lparr> volume = Some (- 14), pitches = [''G4'', ''B4'', ''D4'', ''F4''],
            noteLength = ''2n'', onset = None \<rparr>),
       (3000, \<lparr> volume = Some (- 14), pitches = [''F4'', ''A4'', ''C4'', ''E4''],
            noteLength = ''2n'', onset = None \<rparr>)], Stopped)"
  by (simp add: playProgression_def getHumanizedVelocity_def chordCall_def initial_def
      demo_Chord_get_def demo_pitchClass_def demo_rnd_def numeral_eq_Suc)

section \<open>Loudness\<close>

text \<open>
  C4. The loudness of a synth is \<open>velocityMap\<close> of the velocity class plus
  \<open>(u - 1/2) * 4\<close> for one draw \<open>u\<close> of \<open>Math.random\<close>, so with \<open>0 \<le> u < 1\<close> it
  lies between \<open>base - 2\<close> and \<open>base + 2\<close>. The draw is made once in every call of
  \<open>playChord\<close> that passes the guard and once in every call of \<open>playProgression\<close> on
  a non-empty progression; every call issued by that operation, in particular every chord
  of one progression walk, carries that one value.
\<close>

theorem jitter_per_operation:
  assumes "0 \<le> rnd k" and "rnd k < 1"
  shows "fst (getHumanizedVelocity vel rnd k) = velocityMap vel + (rnd k - 1 / 2) * 4
       \<and> velocityMap vel - 2 \<le> fst (getHumanizedVelocity vel rnd k)
       \<and> fst (getHumanizedVelocity vel rnd k) \<le> velocityMap vel + 2
       \<and> snd (getHumanizedVelocity vel rnd k) = Suc k
       \<and> map volume (fst (playChord rnd k s customNotes)) =
           replicate (length (fst (playChord rnd k s customNotes)))
             (Some (fst (getHumanizedVelocity (velocity s) rnd k)))
       \<and> snd (playChord rnd k s customNotes) = (if isMuted s \<or> customNotes = [] then k else Suc k)
       \<and> map (volume \<circ> snd) (fst (fst (playProgression C P rnd k s fuel))) =
           replicate (length (fst (fst (playProgression C P rnd k s fuel))))
             (Some (fst (getHumanizedVelocity (velocity s) rnd k)))
       \<and> snd (playProgression C P rnd k s fuel) = (if progression s = [] then k else Suc k)"
proof -
  have g: "getHumanizedVelocity vel rnd k = (velocityMap vel + (rnd k - 1 / 2) * 4, Suc k)" for vel
    by (simp add: getHumanizedVelocity_def)
  have bounds: "velocityMap vel - 2 \<le> velocityMap vel + (rnd k - 1 / 2) * 4"
    "velocityMap vel + (rnd k - 1 / 2) * 4 \<le> velocityMap vel + 2"
    using assms by simp_all
  have chord: "map volume (fst (playChord rnd k s customNotes)) =
           replicate (length (fst (playChord rnd k s customNotes)))
             (Some (fst (getHumanizedVelocity (velocity s) rnd k)))"
    by (cases "playStyle s")
      (simp_all add: playChord_def g map_replicate_const comp_def split_beta)
  have walk: "map (volume \<circ> snd) (fst (fst (playProgression C P rnd k s fuel))) =
           replicate (length (fst (fst (playProgression C P rnd k s fuel))))
             (Some (fst (getHumanizedVelocity (velocity s) rnd k)))"
    by (simp add: playProgression_def g playNext_volume)
  have draws: "snd (playChord rnd k s customNotes) = (if isMuted s \<or> customNotes = [] then k else Suc k)"
    "snd (playProgression C P rnd k s fuel) = (if progression s = [] then k else Suc k)"
    by (simp_all add: playChord_def playProgression_def g Let_def)
  from bounds chord walk draws show ?thesis
    by (simp only: g fst_conv snd_conv simp_thms)
qed

theorem jitter_per_operation_witness:
  "0 \<le> demo_rnd 0 \<and> demo_rnd 0 < 1
   \<and> fst (getHumanizedVelocity MediumVel demo_rnd 0) = - 14
   \<and> map volume (fst (playChord demo_rnd 0 (initial\<lparr> playStyle := Arpeggio \<rparr>) [''C4'', ''E4''])) =
       replicate
         (length (fst (playChord demo_rnd 0 (initial\<lparr> playStyle := Arpeggio \<rparr>) [''C4'', ''E4''])))
         (Some (- 14))
   \<and> snd (playChord demo_rnd 0 (initial\<lparr> playStyle := Arpeggio \<rparr>) [''C4'', ''E4'']) = 1
   \<and> map (volume \<circ> snd)
        (fst (fst (playProgression demo_Chord_get demo_pitchClass demo_rnd 0
           (initial\<lparr> progression := [''Cmaj7'', ''G7''] \<rparr>) 3))) =
       replicate
         (length (fst (fst (playProgression demo_Chord_get demo_pitchClass demo_rnd 0
           (initial\<lparr> progression := [''Cmaj7'', ''G7''] \<rparr>) 3))))
         (Some (- 14))
   \<and> snd (playProgression demo_Chord_get demo_pitchClass demo_rnd 0
        (initial\<lparr> progression := [''Cmaj7'', ''G7''] \<rparr>) 3) = 1"
proof -
  have h1: "0 \<le> demo_rnd 0" and h2: "demo_rnd 0 < 1"
    by (simp_all add: demo_rnd_def)
  show ?thesis
    using h1 h2
      jitter_per_operation [where rnd = demo_rnd and k = 0 and vel = MediumVel
        and s = "initial\<lparr> playStyle := Arpeggio \<rparr>" and customNotes = "[''C4'', ''E4'']"
        and C = demo_Chord_get and P = demo_pitchClass and fuel = 3]
      jitter_per_operation [where rnd = demo_rnd and k = 0 and vel = MediumVel
        and s = "initial\<lparr> progression := [''Cmaj7'', ''G7''] \<rparr>" and customNotes = "[]"
        and C = demo_Chord_get and P = demo_pitchClass and fuel = 3]
    by (simp add: initial_def demo_rnd_def getHumanizedVelocity_def)
qed

text \<open>
  The loudness is not drawn afresh for each chord of a walk: with the draws
  \<open>0, 3/4, 3/4, \<dots>\<close> both chords of the progression \<open>Cmaj7, G7\<close> are triggered at
  \<open>-14\<close> dB, one draw has been consumed, and the next draw would have given \<open>-11\<close> dB.
\<close>

theorem jitter_shared_counterexample:
  "map (volume \<circ> snd)
     (fst (fst (playProgression demo_Chord_get demo_pitchClass demo_rnd 0
        (initial\<lparr> progression := [''Cmaj7'', ''G7''] \<rparr>) 3))) = [Some (- 14), Some (- 14)]
   \<and> snd (playProgression demo_Chord_get demo_pitchClass demo_rnd 0
        (initial\<lparr> progression := [''Cmaj7'', ''G7''] \<rparr>) 3) = 1
   \<and> fst (getHumanizedVelocity MediumVel demo_rnd 1) = - 11"
  by (simp add: playProgression_def getHumanizedVelocity_def chordCall_def initial_def
      demo_rnd_def numeral_eq_Suc)

section \<open>Note derivation\<close>

text \<open>
  C5. With harmonics disabled, selecting a chord whose resolved notes are pitch classes
  (fixed points of \<open>Note.pitchClass\<close>) stores exactly these pitch classes with the octave
  4 appended, in the resolver's order; with no bass and no melody this list is the whole
  playback list.
\<close>

theorem fixed_octave:
  assumes "\<not> harmonicsMode s"
    and "\<forall>p \<in> set (chord_notes (C c)). P p = p"
  shows "notes_state (fst (handleSelect C P rnd k s c)) = map (\<lambda>p. p @ ''4'') (chord_notes (C c))
       \<and> allNotes None (notes_state (fst (handleSelect C P rnd k s c))) [] =
           map (\<lambda>p. p @ ''4'') (chord_notes (C c))"
proof -
  have "notes_state (fst (handleSelect C P rnd k s c)) =
          map (\<lambda>n. P n @ ''4'') (chord_notes (C c))"
    using assms(1)
    by (simp add: handleSelect_def Let_def split_beta baseOctave_def string_of_nat_4)
  also have "\<dots> = map (\<lambda>p. p @ ''4'') (chord_notes (C c))"
    using assms(2) by (intro map_cong) simp_all
  finally show ?thesis
    by (simp add: allNotes_def)
qed

theorem fixed_octave_witness:
  "\<not> harmonicsMode initial
   \<and> chord_notes (demo_Chord_get ''Cmaj7'') = [''C'', ''E'', ''G'', ''B'']
   \<and> map demo_pitchClass [''C'', ''E'', ''G'', ''B''] = [''C'', ''E'', ''G'', ''B'']
   \<and> notes_state (fst (handleSelect demo_Chord_get demo_pitchClass demo_rnd 0 initial ''Cmaj7'')) =
       [''C4'', ''E4'', ''G4'', ''B4'']
   \<and> allNotes None
       (notes_state (fst (handleSelect demo_Chord_get demo_pitchClass demo_rnd 0 initial ''Cmaj7'')))
       [] = [''C4'', ''E4'', ''G4'', ''B4'']"
proof -
  have h1: "\<not> harmonicsMode initial"
    by (simp add: initial_def)
  have h2: "\<forall>p \<in> set (chord_notes (demo_Chord_get ''Cmaj7'')). demo_pitchClass p = p"
    by (simp add: demo_Chord_get_def demo_pitchClass_def)
  show ?thesis
    using h1 h2 fixed_octave [where s = initial and C = demo_Chord_get and P = demo_pitchClass
        and c = "''Cmaj7''" and rnd = demo_rnd and k = 0]
    by (simp add: demo_Chord_get_def demo_pitchClass_def allNotes_def)
qed

text \<open>
  C3. With harmonics enabled, and \<open>Note.pitchClass\<close> returning the pitch class of a
  pitch class and of a pitch class followed by \<open>4\<close>, the stored chord notes are the
  resolver's pitch classes in order, the one at index \<open>i\<close> followed by the octave
  \<open>4 + i div 2\<close>.
\<close>

theorem harmonics_spread:
  assumes "harmonicsMode s"
    and "\<forall>p \<in> set (chord_notes (C c)). P p = p \<and> P (p @ ''4'') = p"
  shows "notes_state (fst (handleSelect C P rnd k s c)) =
           map (\<lambda>i. chord_notes (C c) ! i @ string_of_nat (4 + i div 2))
             [0..<length (chord_notes (C c))]"
proof -
  let ?ps = "chord_notes (C c)"
  have "notes_state (fst (handleSelect C P rnd k s c)) =
          map (\<lambda>(i, note). P note @ string_of_nat (4 + i div 2))
            (enumerate 0 (map (\<lambda>n. P n @ ''4'') ?ps))"
    using assms(1)
    by (simp add: handleSelect_def Let_def split_beta baseOctave_def string_of_nat_4)
  also have "\<dots> = map (\<lambda>i. P (map (\<lambda>n. P n @ ''4'') ?ps ! i) @ string_of_nat (4 + i div 2))
                    [0..<length ?ps]"
    by (simp add: map_enumerate_nth)
  also have "\<dots> = map (\<lambda>i. ?ps ! i @ string_of_nat (4 + i div 2)) [0..<length ?ps]"
    using assms(2) by (intro map_cong) simp_all
  finally show ?thesis .
qed

theorem harmonics_spread_witness:
  "harmonicsMode (initial\<lparr> harmonicsMode := True \<rparr>)
   \<and> chord_notes (demo_Chord_get ''Cmaj7'') = [''C'', ''E'', ''G'', ''B'']
   \<and> map demo_pitchClass [''C'', ''E'', ''G'', ''B''] = [''C'', ''E'', ''G'', ''B'']
   \<and> map (\<lambda>p. demo_pitchClass (p @ ''4'')) [''C'', ''E'', ''G'', ''B''] = [''C'', ''E'', ''G'', ''B'']
   \<and> notes_state (fst (handleSelect demo_Chord_get demo_pitchClass demo_rnd 0
         (initial\<lparr> harmonicsMode := True \<rparr>) ''Cmaj7'')) = [''C4'', ''E4'', ''G5'', ''B5'']"
proof -
  have h1: "harmonicsMode (initial\<lparr> harmonicsMode := True \<rparr>)"
    by simp
  have h2: "\<forall>p \<in> set (chord_notes (demo_Chord_get ''Cmaj7'')).
         demo_pitchClass p = p \<and> demo_pitchClass (p @ ''4'') = p"
    by (simp add: demo_Chord_get_def demo_pitchClass_def)
  show ?thesis
    using h1 h2 harmonics_spread [where s = "initial\<lparr> harmonicsMode := True \<rparr>"
        and C = demo_Chord_get and P = demo_pitchClass and c = "''Cmaj7''" and rnd = demo_rnd
        and k = 0]
    by (simp add: demo_Chord_get_def demo_pitchClass_def string_of_nat.simps)
qed

text \<open>
  C7. When the resolver returns no notes for the symbol, \<open>handleSelect\<close> issues no call
  and makes no draw, and the stored chord notes and melody are empty. When the resolver
  also returns no tonic, as it does for an unknown symbol, the bass is cleared, the
  playback list of the new state is empty, and neither the piano effect nor the loop
  interval issues a call on the new state. The handler has no error result.
\<close>

theorem unknown_symbol_is_silent:
  assumes "chord_notes (C c) = []"
  shows "snd (handleSelect C P rnd k s c) = ([], k)
       \<and> notes_state (fst (handleSelect C P rnd k s c)) = []
       \<and> selectedMelody (fst (handleSelect C P rnd k s c)) = []
       \<and> (\<not> truthy (tonic (C c)) \<longrightarrow>
            bassNote (fst (handleSelect C P rnd k s c)) = None
          \<and> allNotes (bassNote (fst (handleSelect C P rnd k s c)))
                (notes_state (fst (handleSelect C P rnd k s c)))
                (selectedMelody (fst (handleSelect C P rnd k s c))) = []
          \<and> pianoEffect synth (pianoOf (fst (handleSelect C P rnd k s c))) = []
          \<and> loopTick rnd k' (fst (handleSelect C P rnd k s c)) = ([], k'))"
  using assms
  by (auto simp: handleSelect_def Let_def playChord_def truthy_def allNotes_def pianoEffect_def
      pianoOf_def combined_def loopTick_def split: option.splits)

theorem unknown_symbol_is_silent_witness:
  "chord_notes (demo_Chord_get ''Xyz'') = []
   \<and> \<not> truthy (tonic (demo_Chord_get ''Xyz''))
   \<and> snd (handleSelect demo_Chord_get demo_pitchClass demo_rnd 0
        (initial\<lparr> selectedChord := Some ''Cmaj7'', notes_state := [''C4'', ''E4'', ''G4'', ''B4''],
           bassNote := Some ''C2'', selectedMelody := [''E5''] \<rparr>) ''Xyz'') = ([], 0)
   \<and> allNotes
        (bassNote (fst (handleSelect demo_Chord_get demo_pitchClass demo_rnd 0
          (initial\<lparr> selectedChord := Some ''Cmaj7'', notes_state := [''C4'', ''E4'', ''G4'', ''B4''],
             bassNote := Some ''C2'', selectedMelody := [''E5''] \<rparr>) ''Xyz'')))
        (notes_state (fst (handleSelect demo_Chord_get demo_pitchClass demo_rnd 0
          (initial\<lparr> selectedChord := Some ''Cmaj7'', notes_state := [''C4'', ''E4'', ''G4'', ''B4''],
             bassNote := Some ''C2'', selectedMelody := [''E5''] \<rparr>) ''Xyz'')))
        (selectedMelody (fst (handleSelect demo_Chord_get demo_pitchClass demo_rnd 0
          (initial\<lparr> selectedChord := Some ''Cmaj7'', notes_state := [''C4'', ''E4'', ''G4'', ''B4''],
             bassNote := Some ''C2'', selectedMelody := [''E5''] \<rparr>) ''Xyz''))) = []"
proof -
  have h1: "chord_notes (demo_Chord_get ''Xyz'') = []"
    by (simp add: demo_Chord_get_def)
  have h2: "\<not> truthy (tonic (demo_Chord_get ''Xyz''))"
    by (simp add: demo_Chord_get_def truthy_def)
  show ?thesis
    using h1 h2 unknown_symbol_is_silent [where C = demo_Chord_get and c = "''Xyz''"
        and P = demo_pitchClass and rnd = demo_rnd and k = 0 and k' = 0 and synth = True
        and s = "initial\<lparr> selectedChord := Some ''Cmaj7'',
           notes_state := [''C4'', ''E4'', ''G4'', ''B4''],
           bassNote := Some ''C2'', selectedMelody := [''E5''] \<rparr>"]
    by (simp add: allNotes_def)
qed

text \<open>
  C10. Whatever the melody was, it is empty after a chord is selected, in both versions
  of the handler.
\<close>

theorem select_clears_melody:
  "selectedMelody (fst (handleSelect C P rnd k s c)) = []
   \<and> selectedMelody2 (fst (handleSelect2 C P2 rnd k s2 c)) = []"
  by (simp add: handleSelect_def handleSelect2_def Let_def split_beta)

text \<open>
  In the second version an empty note list passes through the inversion as a list holding
  \<open>undefined\<close>, which is not empty: the guard of \<open>playChord\<close> lets it through. Without
  the inversion the handler is silent on an unknown symbol, as the first version is.
\<close>

lemma handleSelect2_unknown_symbol:
  assumes "chord_notes (C c) = []"
  shows "\<not> inversion2 s \<Longrightarrow>
           notes2 (fst (handleSelect2 C P rnd k s c)) = []
         \<and> snd (handleSelect2 C P rnd k s c) = ([], k)"
    and "inversion2 s \<Longrightarrow> \<not> harmonicsMode2 s \<Longrightarrow>
           notes2 (fst (handleSelect2 C P rnd k s c)) = [None]"
    and "inversion2 s \<Longrightarrow> \<not> isMuted2 s \<Longrightarrow> fst (snd (handleSelect2 C P rnd k s c)) \<noteq> []"
  using assms
  by (auto simp: handleSelect2_def playChord2_def Let_def split_beta enumerate_eq_zip
      split: play_style.splits)

section \<open>Arpeggiated playback\<close>

text \<open>
  C6. In arpeggio style \<open>playChord\<close>, when not muted and called with a non-empty list
  of chord notes, issues exactly one call per pitch of the playback list (bass, chord
  notes, melody) in list order, the call for index \<open>i\<close> with onset \<open>i * 0.3\<close>, all
  with the token of the duration class and the loudness of the one draw. The piano effect,
  when not muted, with a synth and a non-empty combined list, does the same with onset
  \<open>i * 0.25\<close>.
\<close>

theorem arpeggio_calls:
  "(playStyle s = Arpeggio \<and> \<not> isMuted s \<and> customNotes \<noteq> [] \<longrightarrow>
      fst (playChord rnd k s customNotes) =
        map (\<lambda>i. \<lparr> volume = Some (fst (getHumanizedVelocity (velocity s) rnd k)),
                    pitches = [allNotes (bassNote s) customNotes (selectedMelody s) ! i],
                    noteLength = timeMap (duration s),
                    onset = Some (real i * 0.3) \<rparr>)
          [0..<length (allNotes (bassNote s) customNotes (selectedMelody s))])
   \<and> (p_playStyle p = Arpeggio \<and> \<not> p_muted p \<and> combined p \<noteq> [] \<longrightarrow>
      pianoEffect True p =
        map (\<lambda>i. \<lparr> volume = None, pitches = [combined p ! i],
                    noteLength = timeMap (p_duration p),
                    onset = Some (real i * 0.25) \<rparr>)
          [0..<length (combined p)])"
  by (simp add: playChord_def pianoEffect_def Let_def split_beta map_enumerate_nth)

theorem arpeggio_calls_witness:
  "playStyle (initial\<lparr> playStyle := Arpeggio \<rparr>) = Arpeggio
   \<and> \<not> isMuted (initial\<lparr> playStyle := Arpeggio \<rparr>)
   \<and> [''C4'', ''E4'', ''G4''] \<noteq> []
   \<and> fst (playChord demo_rnd 0 (initial\<lparr> playStyle := Arpeggio \<rparr>) [''C4'', ''E4'', ''G4'']) =
       [\<lparr> volume = Some (- 14), pitches = [''C4''], noteLength = ''2n'', onset = Some 0 \<rparr>,
        \<lparr> volume = Some (- 14), pitches = [''E4''], noteLength = ''2n'', onset = Some (3 / 10) \<rparr>,
        \<lparr> volume = Some (- 14), pitches = [''G4''], noteLength = ''2n'', onset = Some (6 / 10) \<rparr>]
   \<and> pianoEffect True
        \<lparr> p_notes = [''C4'', ''E4'', ''G4''], p_bassNote = None, p_melodyNotes = [],
          p_muted = False, p_playStyle = Arpeggio, p_duration = Medium \<rparr> =
       [\<lparr> volume = None, pitches = [''C4''], noteLength = ''2n'', onset = Some 0 \<rparr>,
        \<lparr> volume = None, pitches = [''E4''], noteLength = ''2n'', onset = Some (1 / 4) \<rparr>,
        \<lparr> volume = None, pitches = [''G4''], noteLength = ''2n'', onset = Some (2 / 4) \<rparr>]"
  using arpeggio_calls [where s = "initial\<lparr> playStyle := Arpeggio \<rparr>"
      and customNotes = "[''C4'', ''E4'', ''G4'']" and rnd = demo_rnd and k = 0
      and p = "\<lparr> p_notes = [''C4'', ''E4'', ''G4''], p_bassNote = None, p_melodyNotes = [],
          p_muted = False, p_playStyle = Arpeggio, p_duration = Medium \<rparr>"]
  by (simp add: initial_def allNotes_def combined_def getHumanizedVelocity_def demo_rnd_def)

text \<open>
  The guard of \<open>playChord\<close> is on the chord notes, not on the playback list: with a bass
  and a melody note but no chord notes the playback list has two pitches, and no call is
  issued.
\<close>

theorem arpeggio_empty_chord_counterexample:
  "allNotes (Some ''C2'') [] [''E5''] = [''C2'', ''E5'']
   \<and> fst (playChord demo_rnd 0
           (initial\<lparr> playStyle := Arpeggio, bassNote := Some ''C2'', selectedMelody := [''E5''] \<rparr>)
           []) = []"
  by (simp add: allNotes_def playChord_def initial_def)

section \<open>Progression store\<close>

text \<open>
  C8. With no chord selected, \<open>addToProgression\<close> leaves the progression, and the whole
  state, unchanged.
\<close>

theorem append_without_selection:
  "selectedChord s = None \<Longrightarrow>
     progression (addToProgression s) = progression s \<and> addToProgression s = s"
  by (simp add: addToProgression_def)

theorem append_without_selection_witness:
  "selectedChord (initial\<lparr> progression := [''Cmaj7''] \<rparr>) = None
   \<and> progression (addToProgression (initial\<lparr> progression := [''Cmaj7''] \<rparr>)) = [''Cmaj7'']"
  using append_without_selection [of "initial\<lparr> progression := [''Cmaj7''] \<rparr>"]
  by (simp add: initial_def)

text \<open>
  C9. Choosing a template replaces the progression by the chords of the template and, in
  the same state update, clears the selected chord, the chord notes, the bass and the
  melody: for the cards of the progression section, and for every label of the template
  menu of the second version.
\<close>

theorem template_resets_selection:
  "(progression (onSelect s chords) = chords
      \<and> selectedChord (onSelect s chords) = None
      \<and> notes_state (onSelect s chords) = []
      \<and> bassNote (onSelect s chords) = None
      \<and> selectedMelody (onSelect s chords) = [])
   \<and> (map_of progressionTemplates label = Some chords' \<longrightarrow>
        progression2 (templateChange2 s2 label) = chords'
      \<and> selectedChord2 (templateChange2 s2 label) = None
      \<and> notes2 (templateChange2 s2 label) = []
      \<and> bassNote2 (templateChange2 s2 label) = None
      \<and> selectedMelody2 (templateChange2 s2 label) = [])"
proof -
  have "map_of progressionTemplates [] = None"
    by (simp add: progressionTemplates_def en_dash_def)
  then have "map_of progressionTemplates label = Some chords' \<Longrightarrow> label \<noteq> []"
    by auto
  then show ?thesis
    by (auto simp: onSelect_def templateChange2_def)
qed

theorem template_resets_selection_witness:
  "map_of progressionTemplates ''12-Bar Blues'' = Some [''C7'', ''F7'', ''C7'', ''G7'']
   \<and> progression (onSelect
         (initial\<lparr> selectedChord := Some ''Cmaj7'', notes_state := [''C4'', ''E4'', ''G4'', ''B4''],
            bassNote := Some ''C2'', selectedMelody := [''E5''] \<rparr>) (templates ! 0)) =
       [''Dm7'', ''G7'', ''Cmaj7'', ''Fmaj7'']
   \<and> selectedChord (onSelect
         (initial\<lparr> selectedChord := Some ''Cmaj7'', notes_state := [''C4'', ''E4'', ''G4'', ''B4''],
            bassNote := Some ''C2'', selectedMelody := [''E5''] \<rparr>) (templates ! 0)) = None
   \<and> selectedMelody (onSelect
         (initial\<lparr> selectedChord := Some ''Cmaj7'', notes_state := [''C4'', ''E4'', ''G4'', ''B4''],
            bassNote := Some ''C2'', selectedMelody := [''E5''] \<rparr>) (templates ! 0)) = []
   \<and> progression2 (templateChange2
         (initial2\<lparr> selectedChord2 := Some ''Cmaj7'', notes2 := [Some ''C4''],
            bassNote2 := Some ''C2'', selectedMelody2 := [''E5''] \<rparr>) ''12-Bar Blues'') =
       [''C7'', ''F7'', ''C7'', ''G7'']
   \<and> selectedChord2 (templateChange2
         (initial2\<lparr> selectedChord2 := Some ''Cmaj7'', notes2 := [Some ''C4''],
            bassNote2 := Some ''C2'', selectedMelody2 := [''E5''] \<rparr>) ''12-Bar Blues'') = None
   \<and> selectedMelody2 (templateChange2
         (initial2\<lparr> selectedChord2 := Some ''Cmaj7'', notes2 := [Some ''C4''],
            bassNote2 := Some ''C2'', selectedMelody2 := [''E5''] \<rparr>) ''12-Bar Blues'') = []"
proof -
  have h: "map_of progressionTemplates ''12-Bar Blues'' = Some [''C7'', ''F7'', ''C7'', ''G7'']"
    by (simp add: progressionTemplates_def en_dash_def)
  show ?thesis
    using h template_resets_selection [where label = "''12-Bar Blues''"
        and chords' = "[''C7'', ''F7'', ''C7'', ''G7'']"
        and ?s2.0 = "initial2\<lparr> selectedChord2 := Some ''Cmaj7'', notes2 := [Some ''C4''],
            bassNote2 := Some ''C2'', selectedMelody2 := [''E5''] \<rparr>"
        and s = "initial\<lparr> selectedChord := Some ''Cmaj7'',
            notes_state := [''C4'', ''E4'', ''G4'', ''B4''],
            bassNote := Some ''C2'', selectedMelody := [''E5''] \<rparr>"
        and chords = "templates ! 0"]
    by (simp add: templates_def)
qed

end
